theory Spec2Isabelle
  imports Complex_Main
begin

section \<open>Sentiment classifier: the orchestration code of \<^verbatim>\<open>sa.py\<close>\<close>

text \<open>
  The class \<^verbatim>\<open>SA\<close> of \<^verbatim>\<open>sa.py\<close> is embedded function by function. Strings are
  \<^typ>\<open>string\<close> and stand for ASCII text; Python's unbounded integers are \<^typ>\<open>int\<close>;
  probabilities and thresholds (floating-point numbers in the program, used only through
  the comparison \<^verbatim>\<open>>=\<close>) are \<^typ>\<open>real\<close>. Every exception is a value of the type
  \<open>error\<close>, and a method that may raise returns \<open>error + 'a\<close>.
\<close>

subsection \<open>Exceptions\<close>

text \<open>
  The exceptions the methods can end with: \<^verbatim>\<open>ValueError\<close> (a string that \<^verbatim>\<open>int\<close> refuses),
  \<^verbatim>\<open>KeyError\<close> (a key that a dictionary or a column that a frame does not have),
  \<^verbatim>\<open>AttributeError\<close> (the attribute \<^verbatim>\<open>model\<close> read before it is set), \<^verbatim>\<open>TypeError\<close> (what
  the interpreter raises when the operand of \<^verbatim>\<open>raise\<close> is a string and not an exception),
  and whatever the file system or the framework raises, by its message.
\<close>

datatype error =
    ValueError
  | KeyError
  | AttributeError
  | TypeError
  | External string

subsection \<open>String operations of the Python runtime\<close>

text \<open>\<^verbatim>\<open>str.lower\<close> on ASCII text: the 26 capital letters change, nothing else does.\<close>

definition lower_char :: "char \<Rightarrow> char" where
  "lower_char c =
     (case map_of (zip ''ABCDEFGHIJKLMNOPQRSTUVWXYZ'' ''abcdefghijklmnopqrstuvwxyz'') c of
        Some d \<Rightarrow> d
      | None \<Rightarrow> c)"

definition lower :: "string \<Rightarrow> string" where
  "lower s = map lower_char s"

text \<open>\<^verbatim>\<open>s.startswith(p)\<close> and \<^verbatim>\<open>s.endswith(p)\<close>.\<close>

definition startswith :: "string \<Rightarrow> string \<Rightarrow> bool" where
  "startswith s p = (take (length p) s = p)"

definition endswith :: "string \<Rightarrow> string \<Rightarrow> bool" where
  "endswith s p = (length p \<le> length s \<and> drop (length s - length p) s = p)"

text \<open>
  The characters at which \<^verbatim>\<open>str.split()\<close> cuts: tab, line feed, vertical tab, form feed,
  carriage return, the four separators \<^verbatim>\<open>\x1c\<close> to \<^verbatim>\<open>\x1f\<close>, and the space.
\<close>

definition is_space :: "char \<Rightarrow> bool" where
  "is_space c = (c \<in> set [CHR 0x09, CHR 0x0A, CHR 0x0B, CHR 0x0C, CHR 0x0D,
                           CHR 0x1C, CHR 0x1D, CHR 0x1E, CHR 0x1F, CHR 0x20])"

text \<open>
  Cutting a string at every character that satisfies \<open>sep\<close>; empty pieces are kept, as
  \<^verbatim>\<open>s.split(' ')\<close> keeps them.
\<close>

fun split_where :: "(char \<Rightarrow> bool) \<Rightarrow> string \<Rightarrow> string list" where
  "split_where sep [] = [[]]"
| "split_where sep (c # cs) =
     (if sep c then [] # split_where sep cs
      else (case split_where sep cs of
              [] \<Rightarrow> [[c]]
            | w # ws \<Rightarrow> (c # w) # ws))"

text \<open>\<^verbatim>\<open>s.split()\<close>: cut at runs of whitespace, no empty pieces.\<close>

definition py_split :: "string \<Rightarrow> string list" where
  "py_split s = filter (\<lambda>w. w \<noteq> []) (split_where is_space s)"

text \<open>\<^verbatim>\<open>sep.join(ws)\<close>.\<close>

fun py_join :: "string \<Rightarrow> string list \<Rightarrow> string" where
  "py_join sep [] = []"
| "py_join sep [w] = w"
| "py_join sep (w # v # ws) = w @ sep @ py_join sep (v # ws)"

text \<open>\<^verbatim>\<open>s.replace("\n", "")\<close>: every line feed is removed.\<close>

definition remove_newlines :: "string \<Rightarrow> string" where
  "remove_newlines s = filter (\<lambda>c. c \<noteq> CHR 0x0A) s"

text \<open>
  \<^verbatim>\<open>f.readlines()\<close> on the decoded text of a file: the text is cut after every line feed,
  and each line keeps its line feed; a last line without one is a line too.
\<close>

fun readlines :: "string \<Rightarrow> string list" where
  "readlines [] = []"
| "readlines (c # cs) =
     (if c = CHR 0x0A then [c] # readlines cs
      else (case readlines cs of
              [] \<Rightarrow> [[c]]
            | l # ls \<Rightarrow> (c # l) # ls))"

text \<open>
  \<^verbatim>\<open>int(s)\<close> on a string of ASCII text, base 10: surrounding whitespace is stripped, one
  sign may lead, and the rest is decimal digits, where single underscores may stand
  between digits. Anything else raises \<^verbatim>\<open>ValueError\<close>. The whitespace that \<^verbatim>\<open>int\<close> strips
  from such a string is tab, line feed, vertical tab, form feed, carriage return and
  space; the separators \<^verbatim>\<open>\x1c\<close> to \<^verbatim>\<open>\x1f\<close>, at which \<^verbatim>\<open>str.split()\<close> cuts, are not
  stripped, and a string that holds one is refused. (The interpreter's limit on the
  number of digits is far beyond the length of a file name and is left out.)
\<close>

definition digit_val :: "char \<Rightarrow> nat option" where
  "digit_val c = map_of (zip ''0123456789'' [0, 1, 2, 3, 4, 5, 6, 7, 8, 9]) c"

fun digits_value :: "nat \<Rightarrow> bool \<Rightarrow> string \<Rightarrow> nat option" where
  "digits_value acc prev_digit [] = (if prev_digit then Some acc else None)"
| "digits_value acc prev_digit (c # cs) =
     (if c = CHR ''_'' then (if prev_digit then digits_value acc False cs else None)
      else (case digit_val c of
              None \<Rightarrow> None
            | Some d \<Rightarrow> digits_value (10 * acc + d) True cs))"

definition is_c_space :: "char \<Rightarrow> bool" where
  "is_c_space c = (c \<in> set [CHR 0x09, CHR 0x0A, CHR 0x0B, CHR 0x0C, CHR 0x0D, CHR 0x20])"

definition strip :: "string \<Rightarrow> string" where
  "strip s = rev (dropWhile is_c_space (rev (dropWhile is_c_space s)))"

definition py_int :: "string \<Rightarrow> error + int" where
  "py_int s =
     (case strip s of
        [] \<Rightarrow> Inl ValueError
      | c # cs \<Rightarrow>
          if c = CHR ''-'' then
            (case digits_value 0 False cs of None \<Rightarrow> Inl ValueError | Some n \<Rightarrow> Inr (- int n))
          else if c = CHR ''+'' then
            (case digits_value 0 False cs of None \<Rightarrow> Inl ValueError | Some n \<Rightarrow> Inr (int n))
          else
            (case digits_value 0 False (c # cs) of None \<Rightarrow> Inl ValueError | Some n \<Rightarrow> Inr (int n)))"

text \<open>\<^verbatim>\<open>str(n)\<close>, which an f-string applies to an integer: decimal digits, a minus sign first
  when negative.\<close>

definition digit_char :: "nat \<Rightarrow> char" where
  "digit_char d = ''0123456789'' ! d"

fun str_nat :: "nat \<Rightarrow> string" where
  "str_nat n = (if n < 10 then [digit_char n] else str_nat (n div 10) @ [digit_char (n mod 10)])"

declare str_nat.simps [simp del]

definition str_int :: "int \<Rightarrow> string" where
  "str_int i = (if i < 0 then CHR ''-'' # str_nat (nat (- i)) else str_nat (nat i))"

text \<open>\<^verbatim>\<open>dict(pairs)\<close>: a later pair with the same key replaces an earlier one.\<close>

definition dict :: "('k \<times> 'v) list \<Rightarrow> ('k \<rightharpoonup> 'v)" where
  "dict kvs = fold (\<lambda>(k, v) m. m(k \<mapsto> v)) kvs Map.empty"

subsection \<open>Functions of the Keras library, as the program calls them\<close>

text \<open>
  The default filter set of the tokenizer: the ASCII punctuation except the apostrophe,
  the tab and the line feed.
\<close>

definition is_filter :: "char \<Rightarrow> bool" where
  "is_filter c = (c \<in> set (''!'' @ [CHR 0x22] @ ''#$%&()*+,-./:;<=>?@['' @ [CHR 0x5C]
                             @ '']^_'' @ [CHR 0x60] @ ''{|}~'' @ [CHR 0x09, CHR 0x0A]))"

text \<open>
  Modelled from the spec: the tokenizer \<^verbatim>\<open>keras.preprocessing.text.text_to_word_sequence\<close>
  belongs to the library and is not among the sources. The specification has it split the
  input "into lowercase word tokens (whitespace-delimited, with punctuation-stripping
  token segmentation)". With the default arguments the program leaves it at, the text is
  lower-cased, every character of the filter set becomes a space, the text is cut at
  every space, and the empty pieces are dropped.
\<close>

definition text_to_word_sequence :: "string \<Rightarrow> string list" where
  "text_to_word_sequence input_text =
     (let input_text = lower input_text;
          input_text = map (\<lambda>c. if is_filter c then CHR '' '' else c) input_text;
          seq = split_where (\<lambda>c. c = CHR '' '') input_text
      in filter (\<lambda>i. i \<noteq> []) seq)"

text \<open>
  Modelled from the spec: \<^verbatim>\<open>sequence.pad_sequences\<close> belongs to the library and is not
  among the sources. The specification has \<^verbatim>\<open>pad(sequence, target_len, pad_value)\<close>
  right-pad with \<^verbatim>\<open>pad_value\<close> or truncate to exactly \<^verbatim>\<open>target_len\<close>. The program calls
  \<^verbatim>\<open>pad_sequences(sequences, value=v, padding='post', maxlen=n)\<close> with \<open>n = 500\<close> and does
  not pass \<^verbatim>\<open>truncating\<close>, whose default is \<^verbatim>\<open>'pre'\<close>: a row longer than \<open>n\<close> loses
  elements at its front (\<^verbatim>\<open>s[-n:]\<close>, for \<open>n > 0\<close>), and a shorter row is filled up behind
  with \<open>v\<close>. The elements are vocabulary indices; the library stores them as 32-bit
  integers, the model keeps them as they are.
\<close>

definition pad_row :: "nat \<Rightarrow> int \<Rightarrow> int list \<Rightarrow> int list" where
  "pad_row maxlen v s =
     (let trunc = drop (length s - maxlen) s
      in trunc @ replicate (maxlen - length trunc) v)"

text \<open>
  Modelled from the spec: the library pads a batch, which is \<open>pad\<close> on each of its rows.
\<close>

definition pad_sequences :: "int list list \<Rightarrow> int \<Rightarrow> nat \<Rightarrow> int list list" where
  "pad_sequences sequences v maxlen = map (pad_row maxlen v) sequences"

subsection \<open>The classifier object\<close>

text \<open>
  A model of the framework is used through \<^verbatim>\<open>model.predict\<close> only: it maps one padded
  row of vocabulary indices to a probability, or raises. The attributes \<^verbatim>\<open>model\<close>,
  \<^verbatim>\<open>loss\<close> and \<^verbatim>\<open>accuracy\<close> do not exist before training or loading: \<open>None\<close>.
\<close>

type_synonym keras_model = "int list \<Rightarrow> error + real"

record SA =
  word_index :: "string \<rightharpoonup> int"
  positive_cap :: real
  neutral_cap :: real
  model :: "keras_model option"
  loss :: "real option"
  accuracy :: "real option"

text \<open>
  What the program reads from outside itself. \<open>config\<close> is the module \<^verbatim>\<open>config.py\<close>
  (the paths it names). \<open>env\<close> is the file system and the framework:
  \<^item> \<open>read_vocabulary path\<close> is \<^verbatim>\<open>pd.read_csv(path)\<close> with its columns \<^verbatim>\<open>Words\<close> and
    \<^verbatim>\<open>Indexes\<close> zipped, row by row;
  \<^item> \<open>read_csv path\<close> is \<^verbatim>\<open>pd.read_csv(path)\<close> for a file of reviews: a frame, its columns
    (of strings) by name;
  \<^item> \<open>open_read path\<close> is the text of a file opened with \<^verbatim>\<open>open(path, 'r')\<close>;
  \<^item> \<open>listdir path\<close> is \<^verbatim>\<open>os.listdir(path)\<close>;
  \<^item> \<open>load_model path\<close> is \<^verbatim>\<open>keras.models.load_model(path)\<close>;
  \<^item> \<open>evaluate m data labels\<close> is \<^verbatim>\<open>m.evaluate(data, labels)\<close>, the loss and the accuracy.
  Each of them may raise.
\<close>

record config =
  WORD_INDEX_PATH :: string
  TRAIN_FILE_PATH :: string
  TEST_FILE_PATH :: string

type_synonym frame = "string \<rightharpoonup> string list"

record env =
  read_vocabulary :: "string \<Rightarrow> error + (string \<times> int) list"
  read_csv :: "string \<Rightarrow> error + frame"
  open_read :: "string \<Rightarrow> error + string"
  listdir :: "string \<Rightarrow> error + string list"
  load_model :: "string option \<Rightarrow> error + keras_model"
  evaluate :: "keras_model \<Rightarrow> int list list \<Rightarrow> int list \<Rightarrow> error + real \<times> real"

text \<open>
  The calls a method makes that can be seen from outside, in the order it makes them:
  loading a model, evaluating one, and a message of the logger at severity fatal.
\<close>

datatype event =
    Load_model "string option"
  | Evaluate
  | Log_fatal error

subsection \<open>\<^verbatim>\<open>init_word_index\<close>\<close>

definition init_word_index :: "env \<Rightarrow> config \<Rightarrow> error + (string \<rightharpoonup> int)" where
  "init_word_index e cfg =
     (case read_vocabulary e (WORD_INDEX_PATH cfg) of
        Inl err \<Rightarrow> Inl err
      | Inr rows \<Rightarrow>
          (let word_index = dict rows;
               word_index = word_index(''<PAD>'' \<mapsto> 0);
               word_index = word_index(''<START'' \<mapsto> 1);
               word_index = word_index(''<UNK>'' \<mapsto> 2);
               word_index = word_index(''<UNUSED>'' \<mapsto> 3)
           in Inr word_index))"

subsection \<open>\<^verbatim>\<open>encode_review\<close>\<close>

definition encode_review :: "SA \<Rightarrow> string list \<Rightarrow> int list" where
  "encode_review self review =
     (let tokens = text_to_word_sequence (py_join '' '' review)
      in map (\<lambda>word. case word_index self word of Some i \<Rightarrow> i | None \<Rightarrow> 0) tokens)"

subsection \<open>\<^verbatim>\<open>encode_sentiment\<close>\<close>

definition encode_sentiment :: "string \<Rightarrow> int" where
  "encode_sentiment x = (if lower x = ''positive'' then 1 else 0)"

text \<open>
  The comparison the specification names for \<open>encode_sentiment\<close>: two strings are equal
  ignoring case when they have the same length and, position by position, the same
  character or the capital and the small form of one letter.
\<close>

definition same_letter :: "char \<Rightarrow> char \<Rightarrow> bool" where
  "same_letter a b =
     (a = b
      \<or> (a, b) \<in> set (zip ''ABCDEFGHIJKLMNOPQRSTUVWXYZ'' ''abcdefghijklmnopqrstuvwxyz'')
      \<or> (b, a) \<in> set (zip ''ABCDEFGHIJKLMNOPQRSTUVWXYZ'' ''abcdefghijklmnopqrstuvwxyz''))"

definition equal_ignoring_case :: "string \<Rightarrow> string \<Rightarrow> bool" where
  "equal_ignoring_case x y = list_all2 same_letter x y"

subsection \<open>\<^verbatim>\<open>which_sentiment\<close>\<close>

definition which_sentiment :: "SA \<Rightarrow> real \<Rightarrow> string" where
  "which_sentiment self prob =
     (if prob \<ge> positive_cap self then ''Positive review''
      else if prob \<ge> neutral_cap self then ''Neutral review''
      else ''Negative review'')"

subsection \<open>\<^verbatim>\<open>preprocess_data\<close>\<close>

definition preprocess_data :: "SA \<Rightarrow> env \<Rightarrow> string \<Rightarrow> error + int list list \<times> int list" where
  "preprocess_data self e file_path =
     (case read_csv e file_path of
        Inl err \<Rightarrow> Inl err
      | Inr reviews \<Rightarrow>
          (case reviews ''Reviews'' of
             None \<Rightarrow> Inl KeyError
           | Some data \<Rightarrow>
               (case reviews ''Sentiment'' of
                  None \<Rightarrow> Inl KeyError
                | Some labels \<Rightarrow>
                    (let data = map py_split data;
                         data = map (encode_review self) data
                     in case word_index self ''<PAD>'' of
                          None \<Rightarrow> Inl KeyError
                        | Some pad \<Rightarrow>
                            Inr (pad_sequences data pad 500, map encode_sentiment labels)))))"

subsection \<open>\<^verbatim>\<open>train_model\<close>: the name under which the model is saved\<close>

text \<open>
  The loop over the entries of \<^verbatim>\<open>./models\<close> (lines 99 to 103), with \<open>curr_idx\<close> as its
  state. \<^verbatim>\<open>i[9:]\<close> is \<open>drop 9 i\<close>; a suffix that \<^verbatim>\<open>int\<close> refuses ends the method with
  \<^verbatim>\<open>ValueError\<close>.
\<close>

fun scan_models :: "int \<Rightarrow> string list \<Rightarrow> error + int" where
  "scan_models curr_idx [] = Inr curr_idx"
| "scan_models curr_idx (i # rest) =
     (if startswith i ''my_model'' then
        (case py_int (drop 9 i) of
           Inl err \<Rightarrow> Inl err
         | Inr idx \<Rightarrow> scan_models (if curr_idx \<le> idx then idx + 1 else curr_idx) rest)
      else scan_models curr_idx rest)"

text \<open>Lines 97 to 104: the path given to \<^verbatim>\<open>self.model.save\<close>.\<close>

definition save_path :: "env \<Rightarrow> string option \<Rightarrow> error + string" where
  "save_path e save_as =
     (case save_as of
        None \<Rightarrow>
          (case listdir e ''./models'' of
             Inl err \<Rightarrow> Inl err
           | Inr entries \<Rightarrow>
               (case scan_models 0 entries of
                  Inl err \<Rightarrow> Inl err
                | Inr curr_idx \<Rightarrow> Inr (''./models/my_model_'' @ str_int curr_idx)))
      | Some path \<Rightarrow> Inr path)"

subsection \<open>\<^verbatim>\<open>load_saved_model\<close>\<close>

text \<open>
  The method returns what it raises or \<open>()\<close>, the object as it leaves it, and the calls
  it made. \<^verbatim>\<open>except Exception as e\<close> catches whatever \<^verbatim>\<open>load_model\<close> raises, logs it and
  raises it again.
\<close>

definition load_saved_model ::
    "SA \<Rightarrow> env \<Rightarrow> config \<Rightarrow> string option \<Rightarrow> (error + unit) \<times> SA \<times> event list" where
  "load_saved_model self e cfg load_path =
     (case preprocess_data self e (TEST_FILE_PATH cfg) of
        Inl err \<Rightarrow> (Inl err, self, [])
      | Inr (test_data, test_labels) \<Rightarrow>
          (case load_model e load_path of
             Inl err \<Rightarrow> (Inl err, self, [Load_model load_path, Log_fatal err])
           | Inr m \<Rightarrow>
               (let self = self\<lparr>model := Some m\<rparr>
                in case evaluate e m test_data test_labels of
                     Inl err \<Rightarrow> (Inl err, self, [Load_model load_path, Evaluate])
                   | Inr (l, a) \<Rightarrow>
                       (Inr (), self\<lparr>loss := Some l, accuracy := Some a\<rparr>,
                        [Load_model load_path, Evaluate]))))"

subsection \<open>\<^verbatim>\<open>predict\<close>\<close>

text \<open>
  The batch of one row \<^verbatim>\<open>review_list.reshape(1, n)\<close> is padded, and \<^verbatim>\<open>prob[0][0]\<close> is what
  the model answers for its row \<open>user_review ! 0\<close>.
\<close>

definition predict :: "SA \<Rightarrow> string \<Rightarrow> error + real \<times> string" where
  "predict self review =
     (let review_list = py_split review;
          review_list = encode_review self review_list
      in case word_index self ''<PAD>'' of
           None \<Rightarrow> Inl KeyError
         | Some pad \<Rightarrow>
             (let user_review = pad_sequences [review_list] pad 500
              in case model self of
                   None \<Rightarrow> Inl AttributeError
                 | Some m \<Rightarrow>
                     (case m (user_review ! 0) of
                        Inl err \<Rightarrow> Inl err
                      | Inr prob \<Rightarrow> Inr (prob, which_sentiment self prob))))"

subsection \<open>\<^verbatim>\<open>predict_from_file\<close>\<close>

text \<open>
  A row of the collection has three cells. The collection starts with the row
  \<^verbatim>\<open>[0, 0, 0]\<close>, every review appends \<^verbatim>\<open>[i, prob, sentiment]\<close>, and the first row is cut
  off at the end (\<^verbatim>\<open>sentiment_collection[1:]\<close>). (The array library stores all cells of
  the result as text; the model keeps the values.)
\<close>

datatype cell = I int | S string | F real

fun predict_all :: "SA \<Rightarrow> string list \<Rightarrow> cell list list \<Rightarrow> error + cell list list" where
  "predict_all self [] sentiment_collection = Inr sentiment_collection"
| "predict_all self (i # data) sentiment_collection =
     (case predict self i of
        Inl err \<Rightarrow> Inl err
      | Inr (prob, sentiment) \<Rightarrow>
          predict_all self data (sentiment_collection @ [[S i, F prob, S sentiment]]))"

definition predict_from_file :: "SA \<Rightarrow> env \<Rightarrow> string \<Rightarrow> error + cell list list" where
  "predict_from_file self e file_path =
     (if endswith file_path ''.csv'' then
        (case read_csv e file_path of
           Inl err \<Rightarrow> Inl err
         | Inr reviews \<Rightarrow>
             (case reviews ''Reviews'' of
                None \<Rightarrow> Inl KeyError
              | Some data \<Rightarrow>
                  (case predict_all self data [[I 0, I 0, I 0]] of
                     Inl err \<Rightarrow> Inl err
                   | Inr sentiment_collection \<Rightarrow> Inr (drop 1 sentiment_collection))))
      else if endswith file_path ''.txt'' then
        (case open_read e file_path of
           Inl err \<Rightarrow> Inl err
         | Inr content \<Rightarrow>
             (let data = readlines content;
                  data = map remove_newlines data
              in case predict_all self data [[I 0, I 0, I 0]] of
                   Inl err \<Rightarrow> Inl err
                 | Inr sentiment_collection \<Rightarrow> Inr (drop 1 sentiment_collection)))
      else Inl TypeError)"

subsection \<open>The suffixes of the saved models\<close>

text \<open>
  The integers that the entries of a directory carry behind \<^verbatim>\<open>my_model_\<close>: for each entry
  that starts with \<^verbatim>\<open>my_model\<close>, what \<^verbatim>\<open>int\<close> reads from its tenth character on.
\<close>

definition model_suffixes :: "string list \<Rightarrow> int list" where
  "model_suffixes entries =
     concat (map (\<lambda>i. if startswith i ''my_model''
                        then (case py_int (drop 9 i) of Inl err \<Rightarrow> [] | Inr idx \<Rightarrow> [idx])
                        else [])
                 entries)"

subsection \<open>Sample data\<close>

text \<open>
  A file system with no files, a configuration, a vocabulary file whose rows name one
  word twice and use a reserved key, a model that looks at the first index of its row,
  and a classifier built on them with the thresholds 0.6 and 0.4.
\<close>

definition no_files :: env where
  "no_files =
     \<lparr>read_vocabulary = (\<lambda>path. Inl (External ''no such file'')),
      read_csv = (\<lambda>path. Inl (External ''no such file'')),
      open_read = (\<lambda>path. Inl (External ''no such file'')),
      listdir = (\<lambda>path. Inl (External ''no such directory'')),
      load_model = (\<lambda>path. Inl (External ''no such model'')),
      evaluate = (\<lambda>m data labels. Inl (External ''no evaluation''))\<rparr>"

definition sample_config :: config where
  "sample_config =
     \<lparr>WORD_INDEX_PATH = ''word_index.csv'',
      TRAIN_FILE_PATH = ''train.csv'',
      TEST_FILE_PATH = ''test.csv''\<rparr>"

definition sample_vocabulary :: "(string \<times> int) list" where
  "sample_vocabulary = [(''good'', 5), (''movie'', 7), (''<PAD>'', 9), (''good'', 4)]"

definition sample_model :: keras_model where
  "sample_model row =
     Inr (if row ! 0 = 4 then 0.75 else if row ! 0 = 7 then 0.5 else 0.1)"

definition sample_SA :: SA where
  "sample_SA =
     \<lparr>word_index = (dict sample_vocabulary)
        (''<PAD>'' \<mapsto> 0, ''<START'' \<mapsto> 1, ''<UNK>'' \<mapsto> 2, ''<UNUSED>'' \<mapsto> 3),
      positive_cap = 0.6,
      neutral_cap = 0.4,
      model = Some sample_model,
      loss = Some 0.3,
      accuracy = Some 0.9\<rparr>"

text \<open>
  A file system with the vocabulary file, a file of labelled reviews, a text file of
  three reviews and a directory of saved models; no model can be loaded from it.
\<close>

definition sample_frame :: frame where
  "sample_frame =
     [''Reviews'' \<mapsto> [''Good movie'', ''bad''], ''Sentiment'' \<mapsto> [''Positive'', ''negative'']]"

definition sample_text :: string where
  "sample_text = ''Good movie!'' @ [CHR 0x0A] @ ''Movie night'' @ [CHR 0x0A] @ ''bad''"

definition sample_env :: env where
  "sample_env =
     no_files
       \<lparr>read_vocabulary :=
          (\<lambda>path. if path = ''word_index.csv'' then Inr sample_vocabulary
                   else Inl (External ''no such file'')),
        read_csv :=
          (\<lambda>path. if path = ''test.csv'' then Inr sample_frame
                   else Inl (External ''no such file'')),
        open_read :=
          (\<lambda>path. if path = ''reviews.txt'' then Inr sample_text
                   else Inl (External ''no such file'')),
        listdir :=
          (\<lambda>path. if path = ''./models'' then Inr [''my_model_0'', ''my_model_1'', ''my_model_3'']
                   else Inl (External ''no such directory''))\<rparr>"

text \<open>
  The same file system with a saved model that can be loaded from every path, and still
  no evaluation.
\<close>

definition saved_model :: keras_model where
  "saved_model row = Inr 0.5"

definition sample_env_saved :: env where
  "sample_env_saved = sample_env\<lparr>load_model := (\<lambda>path. Inr saved_model)\<rparr>"

section \<open>Properties\<close>

subsection \<open>Threshold classification\<close>

text \<open>
  C1. With \<open>positive_cap > neutral_cap\<close>, \<open>which_sentiment\<close> answers "Positive review"
  exactly when the probability is at least \<open>positive_cap\<close>, "Neutral review" exactly when
  it is at least \<open>neutral_cap\<close> and below \<open>positive_cap\<close>, and "Negative review" exactly
  when it is below \<open>neutral_cap\<close>. Both bands include their lower bound.
\<close>

theorem which_sentiment_bands:
  assumes "neutral_cap self < positive_cap self"
  shows "(which_sentiment self p = ''Positive review'' \<longleftrightarrow> positive_cap self \<le> p)
       \<and> (which_sentiment self p = ''Neutral review'' \<longleftrightarrow> neutral_cap self \<le> p \<and> p < positive_cap self)
       \<and> (which_sentiment self p = ''Negative review'' \<longleftrightarrow> p < neutral_cap self)"
  using assms by (auto simp: which_sentiment_def)

theorem which_sentiment_bands_witness:
  "neutral_cap \<lparr>word_index = Map.empty, positive_cap = 0.6, neutral_cap = 0.4,
                 model = None, loss = None, accuracy = None\<rparr>
     < positive_cap \<lparr>word_index = Map.empty, positive_cap = 0.6, neutral_cap = 0.4,
                     model = None, loss = None, accuracy = None\<rparr>
   \<and> which_sentiment \<lparr>word_index = Map.empty, positive_cap = 0.6, neutral_cap = 0.4,
                       model = None, loss = None, accuracy = None\<rparr> 0.75 = ''Positive review''
   \<and> which_sentiment \<lparr>word_index = Map.empty, positive_cap = 0.6, neutral_cap = 0.4,
                       model = None, loss = None, accuracy = None\<rparr> 0.5 = ''Neutral review''
   \<and> which_sentiment \<lparr>word_index = Map.empty, positive_cap = 0.6, neutral_cap = 0.4,
                       model = None, loss = None, accuracy = None\<rparr> 0.1 = ''Negative review''
   \<and> which_sentiment \<lparr>word_index = Map.empty, positive_cap = 0.6, neutral_cap = 0.4,
                       model = None, loss = None, accuracy = None\<rparr> 0.6 = ''Positive review''
   \<and> which_sentiment \<lparr>word_index = Map.empty, positive_cap = 0.6, neutral_cap = 0.4,
                       model = None, loss = None, accuracy = None\<rparr> 0.4 = ''Neutral review''"
  (is "?h \<and> ?a \<and> ?b \<and> ?c \<and> ?d \<and> ?e")
proof -
  have h: ?h by simp
  note bands = which_sentiment_bands [OF h]
  have a: ?a using bands [of "0.75"] by simp
  have b: ?b using bands [of "0.5"] by simp
  have c: ?c using bands [of "0.1"] by simp
  have d: ?d using bands [of "0.6"] by simp
  have e: ?e using bands [of "0.4"] by simp
  from h a b c d e show ?thesis by blast
qed

subsection \<open>Sentiment labels\<close>

lemma lower_char_small:
  "d \<in> set ''abcdefghijklmnopqrstuvwxyz'' \<Longrightarrow> lower_char c = d \<longleftrightarrow> same_letter c d"
  unfolding lower_char_def same_letter_def
  by (simp split: if_split) blast

lemma lower_eq_iff: "lower x = ys \<longleftrightarrow> list_all2 (\<lambda>c d. lower_char c = d) x ys"
  unfolding lower_def by (simp add: list_all2_conv_all_nth list_eq_iff_nth_eq)

lemma lower_positive: "lower x = ''positive'' \<longleftrightarrow> equal_ignoring_case x ''positive''"
proof -
  have "list_all2 (\<lambda>c d. lower_char c = d) x ''positive'' = list_all2 same_letter x ''positive''"
  proof (rule list.rel_cong)
    fix c d
    assume "d \<in> set ''positive''"
    then have "d \<in> set ''abcdefghijklmnopqrstuvwxyz''" by auto
    then show "(lower_char c = d) = same_letter c d" by (rule lower_char_small)
  qed simp_all
  then show ?thesis by (simp only: lower_eq_iff equal_ignoring_case_def)
qed

text \<open>
  C6. \<open>encode_sentiment\<close> returns 1 for every string that equals "positive" when case is
  ignored, and 0 for every other string; "Positive", "POSITIVE" and "positive" give 1,
  "negative" and the empty string give 0.
\<close>

theorem encode_sentiment_positive:
  "encode_sentiment x = (if equal_ignoring_case x ''positive'' then 1 else 0)
   \<and> encode_sentiment ''Positive'' = 1
   \<and> encode_sentiment ''POSITIVE'' = 1
   \<and> encode_sentiment ''positive'' = 1
   \<and> encode_sentiment ''negative'' = 0
   \<and> encode_sentiment '''' = 0"
proof -
  have g: "encode_sentiment x = (if equal_ignoring_case x ''positive'' then 1 else 0)"
    by (simp only: encode_sentiment_def lower_positive)
  have c: "encode_sentiment ''Positive'' = 1" "encode_sentiment ''POSITIVE'' = 1"
    "encode_sentiment ''positive'' = 1" "encode_sentiment ''negative'' = 0"
    "encode_sentiment '''' = 0"
    by (simp_all add: encode_sentiment_def lower_def lower_char_def)
  from g c show ?thesis by blast
qed

subsection \<open>Padding\<close>

lemma pad_row_length: "0 < n \<Longrightarrow> length (pad_row n v s) = n"
  by (auto simp: pad_row_def Let_def)

text \<open>
  C5. Padding to the length 500, as \<open>predict\<close> and \<open>preprocess_data\<close> call it: whatever
  the length of the sequence, the padded row has exactly 500 elements; a sequence of at
  most 500 elements is followed by the pad value, a longer one is truncated (it keeps its
  last 500 elements).
\<close>

theorem pad_sequences_500:
  "pad_sequences [seq] v 500 =
     [if length seq \<le> 500 then seq @ replicate (500 - length seq) v
      else drop (length seq - 500) seq]
   \<and> length (pad_sequences seqs v 500) = length seqs
   \<and> (\<forall>row \<in> set (pad_sequences seqs v 500). length row = 500)"
  by (auto simp: pad_sequences_def pad_row_def Let_def)

theorem pad_sequences_500_witness:
  "pad_sequences [[7, 8, 9]] 0 500 = [[7, 8, 9] @ replicate 497 0]
   \<and> length (pad_sequences [[7, 8, 9]] 0 500 ! 0) = 500
   \<and> pad_sequences [[1, 2, 3] @ replicate 500 5] 0 500 = [replicate 500 5]"
proof -
  note p = pad_sequences_500 [of "[7, 8, 9]" 0 "[[7, 8, 9]]"]
  from p have a: "pad_sequences [[7, 8, 9]] 0 500 = [[7, 8, 9] @ replicate 497 0]" by simp
  from p have "\<forall>row \<in> set (pad_sequences [[7, 8, 9]] 0 500). length row = 500" by blast
  with a have b: "length (pad_sequences [[7, 8, 9]] 0 500 ! 0) = 500" by simp
  have c: "pad_sequences [[1, 2, 3] @ replicate 500 5] 0 500 = [replicate 500 5]"
    using pad_sequences_500 [of "[1, 2, 3] @ replicate 500 5" 0 "[]"] by simp
  from a b c show ?thesis by blast
qed

subsection \<open>The vocabulary\<close>

lemma dict_fold: "fold (\<lambda>(k, v) m. m(k \<mapsto> v)) kvs m0 = m0 ++ map_of (rev kvs)"
  by (induction kvs arbitrary: m0) (auto simp: map_add_def fun_eq_iff split: option.splits)

lemma dict_map_of: "dict kvs = map_of (rev kvs)"
  by (simp add: dict_def dict_fold)

lemma init_word_index_pad: "init_word_index e cfg = Inr wi \<Longrightarrow> wi ''<PAD>'' = Some 0"
  by (auto simp: init_word_index_def Let_def split: sum.splits)

lemma sample_read_vocabulary:
  "read_vocabulary sample_env (WORD_INDEX_PATH sample_config) = Inr sample_vocabulary"
  by (simp add: sample_env_def sample_config_def no_files_def)

lemma sample_init: "init_word_index sample_env sample_config = Inr (word_index sample_SA)"
  by (simp add: init_word_index_def sample_read_vocabulary sample_SA_def Let_def)

text \<open>
  C7. When the vocabulary file can be read, \<open>init_word_index\<close> returns a mapping in which
  the four reserved keys (written \<^verbatim>\<open><PAD>\<close>, \<^verbatim>\<open><START\<close>, \<^verbatim>\<open><UNK>\<close> and \<^verbatim>\<open><UNUSED>\<close> in the
  program) have the indices 0, 1, 2 and 3, whatever the file says about them, and every
  other word has the index of its last row in the file, or none.
\<close>

theorem init_word_index_reserved:
  assumes "read_vocabulary e (WORD_INDEX_PATH cfg) = Inr rows"
  shows "\<exists>wi. init_word_index e cfg = Inr wi
           \<and> wi ''<PAD>'' = Some 0 \<and> wi ''<START'' = Some 1
           \<and> wi ''<UNK>'' = Some 2 \<and> wi ''<UNUSED>'' = Some 3
           \<and> (\<forall>w. w \<notin> {''<PAD>'', ''<START'', ''<UNK>'', ''<UNUSED>''}
                  \<longrightarrow> wi w = map_of (rev rows) w)"
  using assms by (simp add: init_word_index_def Let_def dict_map_of)

theorem init_word_index_reserved_witness:
  "read_vocabulary sample_env (WORD_INDEX_PATH sample_config) = Inr sample_vocabulary
   \<and> (\<exists>wi. init_word_index sample_env sample_config = Inr wi
         \<and> wi ''<PAD>'' = Some 0 \<and> wi ''<START'' = Some 1
         \<and> wi ''<UNK>'' = Some 2 \<and> wi ''<UNUSED>'' = Some 3
         \<and> wi ''good'' = Some 4 \<and> wi ''movie'' = Some 7 \<and> wi ''<START>'' = None)"
proof -
  from init_word_index_reserved [OF sample_read_vocabulary]
  obtain wi where wi: "init_word_index sample_env sample_config = Inr wi"
      "wi ''<PAD>'' = Some 0" "wi ''<START'' = Some 1" "wi ''<UNK>'' = Some 2"
      "wi ''<UNUSED>'' = Some 3"
    and other: "\<And>w. w \<notin> {''<PAD>'', ''<START'', ''<UNK>'', ''<UNUSED>''}
                  \<Longrightarrow> wi w = map_of (rev sample_vocabulary) w"
    by blast
  have "wi ''good'' = Some 4" "wi ''movie'' = Some 7" "wi ''<START>'' = None"
    by (simp_all add: other sample_vocabulary_def)
  with wi sample_read_vocabulary show ?thesis by blast
qed

subsection \<open>Encoding a review\<close>

lemma sample_tokens:
  "text_to_word_sequence (py_join '' '' [''Good'', ''film!'', ''<PAD>''])
     = [''good'', ''film'', ''pad'']"
  by (simp add: text_to_word_sequence_def lower_def lower_char_def is_filter_def)

text \<open>
  C3. With the vocabulary of \<open>init_word_index\<close>, \<open>encode_review\<close> gives one index for each
  token of the review: 0 for a token that the vocabulary does not have, which is the index
  of \<^verbatim>\<open><PAD>\<close>, and the token's own index for a token that it has.
\<close>

theorem encode_review_unknown_is_pad:
  assumes "init_word_index e cfg = Inr (word_index self)"
    and "tokens = text_to_word_sequence (py_join '' '' review)"
  shows "word_index self ''<PAD>'' = Some 0
       \<and> length (encode_review self review) = length tokens
       \<and> (\<forall>k < length tokens.
             (word_index self (tokens ! k) = None \<longrightarrow> encode_review self review ! k = 0)
           \<and> (\<forall>i. word_index self (tokens ! k) = Some i \<longrightarrow> encode_review self review ! k = i))"
proof -
  from assms(1) have "word_index self ''<PAD>'' = Some 0" by (rule init_word_index_pad)
  moreover have "encode_review self review =
      map (\<lambda>word. case word_index self word of Some i \<Rightarrow> i | None \<Rightarrow> 0) tokens"
    by (simp add: encode_review_def assms(2))
  ultimately show ?thesis by simp
qed

theorem encode_review_unknown_is_pad_witness:
  "init_word_index sample_env sample_config = Inr (word_index sample_SA)
   \<and> word_index sample_SA ''<PAD>'' = Some 0
   \<and> encode_review sample_SA [''Good'', ''film!'', ''<PAD>''] ! 0 = 4
   \<and> encode_review sample_SA [''Good'', ''film!'', ''<PAD>''] ! 1 = 0
   \<and> length (encode_review sample_SA [''Good'', ''film!'', ''<PAD>'']) = 3"
proof -
  note t = encode_review_unknown_is_pad [OF sample_init sample_tokens [symmetric]]
  have g: "word_index sample_SA ''good'' = Some 4" and f: "word_index sample_SA ''film'' = None"
    by (simp_all add: sample_SA_def dict_def sample_vocabulary_def)
  from t have l: "length (encode_review sample_SA [''Good'', ''film!'', ''<PAD>'']) = 3" by simp
  from t g have a: "encode_review sample_SA [''Good'', ''film!'', ''<PAD>''] ! 0 = 4" by auto
  from t f have b: "encode_review sample_SA [''Good'', ''film!'', ''<PAD>''] ! 1 = 0" by auto
  from t have p: "word_index sample_SA ''<PAD>'' = Some 0" by blast
  from sample_init p a b l show ?thesis by blast
qed

subsection \<open>A file that is neither \<^verbatim>\<open>.csv\<close> nor \<^verbatim>\<open>.txt\<close>\<close>

text \<open>
  C8. For a path that ends neither in \<^verbatim>\<open>.csv\<close> nor in \<^verbatim>\<open>.txt\<close>, \<open>predict_from_file\<close>
  raises at once, whatever the files hold and whatever the classifier is: nothing is read,
  no review is predicted and no row is returned. The statement \<^verbatim>\<open>raise f"Invalid file
  format ..."\<close> raises a string, which is not an exception: what reaches the caller is the
  interpreter's \<^verbatim>\<open>TypeError\<close>, not an error that names the format.
\<close>

theorem predict_from_file_other_extension:
  assumes "\<not> endswith file_path ''.csv''" and "\<not> endswith file_path ''.txt''"
  shows "predict_from_file self e file_path = Inl TypeError"
  using assms by (simp add: predict_from_file_def)

theorem predict_from_file_other_extension_witness:
  "\<not> endswith ''reviews.json'' ''.csv'' \<and> \<not> endswith ''reviews.json'' ''.txt''
   \<and> predict_from_file sample_SA sample_env ''reviews.json'' = Inl TypeError"
proof -
  have a: "\<not> endswith ''reviews.json'' ''.csv''" and b: "\<not> endswith ''reviews.json'' ''.txt''"
    by (simp_all add: endswith_def)
  from a b predict_from_file_other_extension [OF a b] show ?thesis by blast
qed

subsection \<open>Loading a saved model\<close>

lemma sample_pad: "word_index sample_SA ''<PAD>'' = Some 0"
  by (simp add: sample_SA_def)

lemma sample_preprocess:
  "preprocess_data sample_SA sample_env (TEST_FILE_PATH sample_config)
     = Inr (pad_sequences [[4, 7], [0]] 0 500, [1, 0])"
  by (simp add: preprocess_data_def sample_env_def sample_config_def no_files_def
      sample_frame_def sample_pad Let_def encode_review_def py_split_def is_space_def
      text_to_word_sequence_def lower_def lower_char_def is_filter_def
      sample_SA_def dict_def sample_vocabulary_def encode_sentiment_def)

lemma sample_load:
  "load_model sample_env (Some ''./models/my_model_7'') = Inl (External ''no such model'')"
  by (simp add: sample_env_def no_files_def)

text \<open>
  C9. When the test data have been prepared and \<^verbatim>\<open>keras.models.load_model\<close> raises, for
  whatever path and with whatever error, \<open>load_saved_model\<close> logs that error at severity
  fatal and raises the same error; it calls \<^verbatim>\<open>load_model\<close> once and nothing after the log,
  and it leaves the classifier as it was.
\<close>

theorem load_saved_model_failure:
  assumes "preprocess_data self e (TEST_FILE_PATH cfg) = Inr test"
    and "load_model e load_path = Inl err"
  shows "load_saved_model self e cfg load_path
           = (Inl err, self, [Load_model load_path, Log_fatal err])"
  using assms by (cases test) (simp add: load_saved_model_def)

theorem load_saved_model_failure_witness:
  "preprocess_data sample_SA sample_env (TEST_FILE_PATH sample_config)
     = Inr (pad_sequences [[4, 7], [0]] 0 500, [1, 0])
   \<and> load_model sample_env (Some ''./models/my_model_7'') = Inl (External ''no such model'')
   \<and> load_saved_model sample_SA sample_env sample_config (Some ''./models/my_model_7'')
       = (Inl (External ''no such model''), sample_SA,
          [Load_model (Some ''./models/my_model_7''), Log_fatal (External ''no such model'')])"
  using sample_preprocess sample_load load_saved_model_failure [OF sample_preprocess sample_load]
  by blast

lemma saved_model_differs: "Some saved_model \<noteq> Some sample_model"
proof
  assume "Some saved_model = Some sample_model"
  then have "saved_model [4] = sample_model [4]" by simp
  then show False by (simp add: saved_model_def sample_model_def)
qed

lemma sample_preprocess_saved:
  "preprocess_data sample_SA sample_env_saved (TEST_FILE_PATH sample_config)
     = preprocess_data sample_SA sample_env (TEST_FILE_PATH sample_config)"
  by (simp add: preprocess_data_def sample_env_saved_def)

text \<open>
  C10, as stated, fails: when the model is loaded and \<^verbatim>\<open>model.evaluate\<close> raises,
  \<open>load_saved_model\<close> raises with \<open>model\<close> already replaced by the loaded model.
\<close>

theorem load_saved_model_evaluate_failure:
  "load_saved_model sample_SA sample_env_saved sample_config (Some ''./models/my_model_0'')
     = (Inl (External ''no evaluation''), sample_SA\<lparr>model := Some saved_model\<rparr>,
        [Load_model (Some ''./models/my_model_0''), Evaluate])
   \<and> model (sample_SA\<lparr>model := Some saved_model\<rparr>) \<noteq> model sample_SA"
proof -
  have "load_saved_model sample_SA sample_env_saved sample_config (Some ''./models/my_model_0'')
     = (Inl (External ''no evaluation''), sample_SA\<lparr>model := Some saved_model\<rparr>,
        [Load_model (Some ''./models/my_model_0''), Evaluate])"
    by (simp add: load_saved_model_def sample_preprocess_saved sample_preprocess)
       (simp add: sample_env_saved_def sample_env_def no_files_def)
  moreover have "model (sample_SA\<lparr>model := Some saved_model\<rparr>) \<noteq> model sample_SA"
    using saved_model_differs by (simp add: sample_SA_def)
  ultimately show ?thesis by (rule conjI)
qed

text \<open>
  C10, amended. Whenever \<open>load_saved_model\<close> raises, \<open>loss\<close> and \<open>accuracy\<close> (and the
  vocabulary and the thresholds) keep their values. When it raises because the test data
  cannot be prepared or because the model cannot be loaded, the whole classifier is what
  it was, \<open>model\<close> included. When it raises because \<^verbatim>\<open>model.evaluate\<close> raises after the
  model has been loaded, \<open>model\<close> is the loaded model and nothing else has changed.
\<close>

theorem load_saved_model_error_state:
  assumes "load_saved_model self e cfg load_path = (Inl err, self', events)"
  shows "loss self' = loss self \<and> accuracy self' = accuracy self
       \<and> word_index self' = word_index self
       \<and> positive_cap self' = positive_cap self \<and> neutral_cap self' = neutral_cap self
       \<and> ((\<exists>err. preprocess_data self e (TEST_FILE_PATH cfg) = Inl err)
             \<or> (\<exists>err. load_model e load_path = Inl err)
           \<longrightarrow> self' = self)
       \<and> (\<forall>test m. preprocess_data self e (TEST_FILE_PATH cfg) = Inr test
                     \<and> load_model e load_path = Inr m
           \<longrightarrow> self' = self\<lparr>model := Some m\<rparr>)"
  using assms
  by (auto simp: load_saved_model_def Let_def split: sum.splits prod.splits)

theorem load_saved_model_error_state_witness:
  "load_saved_model sample_SA sample_env sample_config None
     = (Inl (External ''no such model''), sample_SA,
        [Load_model None, Log_fatal (External ''no such model'')])
   \<and> load_model sample_env None = Inl (External ''no such model'')
   \<and> model sample_SA = Some sample_model
   \<and> loss sample_SA = Some 0.3 \<and> accuracy sample_SA = Some 0.9"
proof -
  have l: "load_model sample_env None = Inl (External ''no such model'')"
    by (simp add: sample_env_def no_files_def)
  obtain result self' events where
    r: "load_saved_model sample_SA sample_env sample_config None = (result, self', events)"
    by (rule prod_cases3)
  have res: "result = Inl (External ''no such model'')"
    and ev: "events = [Load_model None, Log_fatal (External ''no such model'')]"
    using r by (simp_all add: load_saved_model_def sample_preprocess l)
  from r res have r': "load_saved_model sample_SA sample_env sample_config None
      = (Inl (External ''no such model''), self', events)" by simp
  from l have "\<exists>err. load_model sample_env None = Inl err" by (rule exI)
  with load_saved_model_error_state [OF r'] have "self' = sample_SA" by (simp only: simp_thms)
  with r' ev have a: "load_saved_model sample_SA sample_env sample_config None
     = (Inl (External ''no such model''), sample_SA,
        [Load_model None, Log_fatal (External ''no such model'')])" by simp
  have f: "model sample_SA = Some sample_model" "loss sample_SA = Some 0.3"
    "accuracy sample_SA = Some 0.9" by (simp_all add: sample_SA_def)
  show ?thesis using a l f by (intro conjI) assumption+
qed

subsection \<open>The name of a saved model\<close>

lemma max_step: "(if c \<le> idx then idx + 1 else c) = max c (idx + (1::int))"
  by auto

lemma scan_models_value:
  assumes "\<forall>i \<in> set entries. startswith i ''my_model'' \<longrightarrow> (\<exists>idx. py_int (drop 9 i) = Inr idx)"
  shows "scan_models c entries
           = Inr (Max (insert c ((\<lambda>idx. idx + 1) ` set (model_suffixes entries))))"
  using assms
proof (induction entries arbitrary: c)
  case Nil
  show ?case by (simp add: model_suffixes_def)
next
  case (Cons i rest)
  from Cons.prems have rest: "\<forall>i \<in> set rest. startswith i ''my_model'' \<longrightarrow> (\<exists>idx. py_int (drop 9 i) = Inr idx)"
    by simp
  show ?case
  proof (cases "startswith i ''my_model''")
    case False
    then have "model_suffixes (i # rest) = model_suffixes rest" by (simp add: model_suffixes_def)
    with False Cons.IH [OF rest, of c] show ?thesis by simp
  next
    case True
    with Cons.prems obtain idx where idx: "py_int (drop 9 i) = Inr idx" by auto
    from True idx have ms: "model_suffixes (i # rest) = idx # model_suffixes rest"
      by (simp add: model_suffixes_def)
    let ?A = "(\<lambda>idx. idx + 1) ` set (model_suffixes rest)"
    have fin: "finite ?A" by simp
    have "scan_models c (i # rest) = scan_models (max c (idx + 1)) rest"
      using True idx by (simp add: max_step)
    also have "\<dots> = Inr (Max (insert (max c (idx + 1)) ?A))"
      by (rule Cons.IH [OF rest])
    also have "Max (insert (max c (idx + 1)) ?A) = Max (insert c (insert (idx + 1) ?A))"
      using fin by (cases "?A = {}") (simp_all add: max.assoc)
    finally show ?thesis by (simp add: ms)
  qed
qed

lemma sample_listdir:
  "listdir sample_env ''./models'' = Inr [''my_model_0'', ''my_model_1'', ''my_model_3'']"
  by (simp add: sample_env_def no_files_def)

lemma sample_suffixes:
  "model_suffixes [''my_model_0'', ''my_model_1'', ''my_model_3''] = [0, 1, 3]"
  by (simp add: model_suffixes_def startswith_def py_int_def strip_def is_c_space_def digit_val_def)

text \<open>
  C2, as stated, fails: with the entries \<^verbatim>\<open>my_model_0\<close>, \<^verbatim>\<open>my_model_1\<close> and \<^verbatim>\<open>my_model_3\<close> the
  generated name is \<^verbatim>\<open>./models/my_model_4\<close>, not \<^verbatim>\<open>my_model_2\<close>, although 2 is unused.
\<close>

theorem save_path_not_lowest_unused:
  "save_path sample_env None = Inr ''./models/my_model_4''
   \<and> save_path sample_env None \<noteq> Inr ''./models/my_model_2''
   \<and> 2 \<notin> set (model_suffixes [''my_model_0'', ''my_model_1'', ''my_model_3''])"
  by (simp add: save_path_def sample_listdir sample_suffixes startswith_def py_int_def strip_def
      is_c_space_def digit_val_def str_int_def str_nat.simps [of 4] digit_char_def)

text \<open>
  C2, amended. When no path is given and every entry of \<^verbatim>\<open>./models\<close> that starts with
  \<^verbatim>\<open>my_model\<close> carries an integer behind its ninth character, the generated name is
  \<^verbatim>\<open>./models/my_model_N\<close> where \<open>N\<close> is one more than the greatest suffix of these entries,
  and 0 when there is none or none is non-negative. So \<open>N\<close> is not negative and greater
  than every suffix in use, but it need not be the smallest unused one.
\<close>

theorem save_path_above_existing:
  assumes "listdir e ''./models'' = Inr entries"
    and "\<forall>i \<in> set entries. startswith i ''my_model'' \<longrightarrow> (\<exists>idx. py_int (drop 9 i) = Inr idx)"
  shows "\<exists>n. save_path e None = Inr (''./models/my_model_'' @ str_int n)
           \<and> n = Max (insert 0 ((\<lambda>idx. idx + 1) ` set (model_suffixes entries)))
           \<and> 0 \<le> n
           \<and> (\<forall>idx \<in> set (model_suffixes entries). idx < n)"
proof -
  let ?A = "(\<lambda>idx. idx + 1) ` set (model_suffixes entries)"
  let ?n = "Max (insert 0 ?A)"
  have fin: "finite (insert 0 ?A)" by simp
  have "save_path e None = Inr (''./models/my_model_'' @ str_int ?n)"
    by (simp add: save_path_def assms(1) scan_models_value [OF assms(2)])
  moreover have "0 \<le> ?n" using fin by (intro Max_ge) auto
  moreover have "idx < ?n" if "idx \<in> set (model_suffixes entries)" for idx
  proof -
    from that have "idx + 1 \<in> insert 0 ?A" by auto
    with fin have "idx + 1 \<le> ?n" by (intro Max_ge)
    then show ?thesis by simp
  qed
  ultimately show ?thesis by blast
qed

lemma py_int_samples:
  "py_int ''0'' = Inr 0" "py_int ''10'' = Inr 10" "py_int ''-3'' = Inr (- 3)"
  by (simp_all add: py_int_def strip_def is_c_space_def digit_val_def)

lemma py_int_separator: "py_int ([CHR 0x1F] @ ''7'') = Inl ValueError"
  by (simp add: py_int_def strip_def is_c_space_def digit_val_def)

lemma str_int_11: "str_int 11 = ''11''"
  by code_simp

theorem save_path_above_existing_witness:
  "listdir (sample_env\<lparr>listdir := (\<lambda>path. Inr [''my_model_0'', ''notes.txt'', ''my_model_10'', ''my_model_-3''])\<rparr>)
      ''./models'' = Inr [''my_model_0'', ''notes.txt'', ''my_model_10'', ''my_model_-3'']
   \<and> save_path (sample_env\<lparr>listdir := (\<lambda>path. Inr [''my_model_0'', ''notes.txt'', ''my_model_10'', ''my_model_-3''])\<rparr>)
        None = Inr ''./models/my_model_11''"
  (is "listdir ?e _ = Inr ?entries \<and> _")
proof -
  have l: "listdir ?e ''./models'' = Inr ?entries" by simp
  have p: "\<forall>i \<in> set ?entries. startswith i ''my_model'' \<longrightarrow> (\<exists>idx. py_int (drop 9 i) = Inr idx)"
    by (simp add: startswith_def py_int_samples)
  have s: "model_suffixes ?entries = [0, 10, - 3]"
    by (simp add: model_suffixes_def startswith_def py_int_samples)
  from save_path_above_existing [OF l p] obtain n where
    n: "save_path ?e None = Inr (''./models/my_model_'' @ str_int n)"
      "n = Max (insert 0 ((\<lambda>idx. idx + 1) ` set (model_suffixes ?entries)))"
    by blast
  from n(2) have "n = 11" by (simp add: s)
  with n(1) have "save_path ?e None = Inr ''./models/my_model_11''"
    by (simp add: str_int_11)
  with l show ?thesis by blast
qed

subsection \<open>Predicting the reviews of a file\<close>

lemma predict_all_acc:
  "predict_all self data coll =
     (case predict_all self data [] of Inl err \<Rightarrow> Inl err | Inr rs \<Rightarrow> Inr (coll @ rs))"
proof (induction data arbitrary: coll)
  case Nil
  show ?case by simp
next
  case (Cons i data)
  show ?case
  proof (cases "predict self i")
    case (Inl err)
    then show ?thesis by simp
  next
    case (Inr r)
    obtain prob sentiment where r: "r = (prob, sentiment)" by (cases r)
    let ?row = "[S i, F prob, S sentiment]"
    have "predict_all self (i # data) coll = predict_all self data (coll @ [?row])"
      using Inr r by simp
    moreover have "predict_all self (i # data) [] = predict_all self data [?row]"
      using Inr r by simp
    ultimately show ?thesis
      using Cons.IH [of "coll @ [?row]"] Cons.IH [of "[?row]"]
      by (simp split: sum.splits)
  qed
qed

lemma predict_all_rows:
  assumes "\<forall>i \<in> set data. \<exists>r. predict self i = Inr r"
  shows "\<exists>rs. predict_all self data [] = Inr rs \<and> length rs = length data
           \<and> (\<forall>k < length data. \<exists>prob sentiment.
                 predict self (data ! k) = Inr (prob, sentiment)
               \<and> rs ! k = [S (data ! k), F prob, S sentiment])"
  using assms
proof (induction data)
  case Nil
  show ?case by simp
next
  case (Cons i data)
  from Cons.prems obtain prob sentiment where p: "predict self i = Inr (prob, sentiment)"
    by fastforce
  from Cons.prems have "\<forall>i \<in> set data. \<exists>r. predict self i = Inr r" by simp
  from Cons.IH [OF this] obtain rs where rs: "predict_all self data [] = Inr rs"
    "length rs = length data"
    "\<And>k. k < length data \<Longrightarrow> \<exists>prob sentiment.
        predict self (data ! k) = Inr (prob, sentiment)
      \<and> rs ! k = [S (data ! k), F prob, S sentiment]"
    by blast
  let ?row = "[S i, F prob, S sentiment]"
  have "predict_all self (i # data) [] = predict_all self data [?row]" using p by simp
  also have "\<dots> = Inr (?row # rs)" using predict_all_acc [of self data "[?row]"] rs(1) by simp
  finally have a: "predict_all self (i # data) [] = Inr (?row # rs)" .
  have "\<exists>prob sentiment. predict self ((i # data) ! k) = Inr (prob, sentiment)
          \<and> (?row # rs) ! k = [S ((i # data) ! k), F prob, S sentiment]"
    if "k < length (i # data)" for k
  proof (cases k)
    case 0
    then show ?thesis using p by simp
  next
    case (Suc j)
    with that have "j < length data" by simp
    from rs(3) [OF this] Suc show ?thesis by simp
  qed
  with a rs(2) show ?case by simp
qed

text \<open>
  C4. For a \<^verbatim>\<open>.csv\<close> file with a column \<^verbatim>\<open>Reviews\<close>, or a \<^verbatim>\<open>.txt\<close> file, whose reviews
  (rows, or lines without their line feed) \<open>predict\<close> can all handle, \<open>predict_from_file\<close>
  returns one row for each review, in the order of the file, and each row holds the
  review, the probability and the label that \<open>predict\<close> returns for it.
\<close>

theorem predict_from_file_records:
  assumes "(endswith file_path ''.csv''
              \<and> (\<exists>reviews. read_csv e file_path = Inr reviews \<and> reviews ''Reviews'' = Some data))
         \<or> (\<not> endswith file_path ''.csv'' \<and> endswith file_path ''.txt''
              \<and> (\<exists>content. open_read e file_path = Inr content
                    \<and> data = map remove_newlines (readlines content)))"
    and "\<forall>i \<in> set data. \<exists>r. predict self i = Inr r"
  shows "\<exists>rs. predict_from_file self e file_path = Inr rs \<and> length rs = length data
           \<and> (\<forall>k < length data. \<exists>prob sentiment.
                 predict self (data ! k) = Inr (prob, sentiment)
               \<and> rs ! k = [S (data ! k), F prob, S sentiment])"
proof -
  from predict_all_rows [OF assms(2)] obtain rs where rs: "predict_all self data [] = Inr rs"
    "length rs = length data"
    "\<forall>k < length data. \<exists>prob sentiment.
        predict self (data ! k) = Inr (prob, sentiment)
      \<and> rs ! k = [S (data ! k), F prob, S sentiment]"
    by blast
  have "predict_all self data [[I 0, I 0, I 0]] = Inr ([I 0, I 0, I 0] # rs)"
    using predict_all_acc [of self data "[[I 0, I 0, I 0]]"] rs(1) by simp
  with assms(1) have "predict_from_file self e file_path = Inr rs"
    by (auto simp: predict_from_file_def Let_def)
  with rs(2,3) show ?thesis by blast
qed

lemma sample_lines:
  "map remove_newlines (readlines sample_text) = [''Good movie!'', ''Movie night'', ''bad'']"
  by (simp add: sample_text_def remove_newlines_def)

lemma predict_padded:
  "predict self review =
     (case word_index self ''<PAD>'' of
        None \<Rightarrow> Inl KeyError
      | Some pad \<Rightarrow>
          (case model self of
             None \<Rightarrow> Inl AttributeError
           | Some m \<Rightarrow>
               (case m (pad_row 500 pad (encode_review self (py_split review))) of
                  Inl err \<Rightarrow> Inl err
                | Inr prob \<Rightarrow> Inr (prob, which_sentiment self prob))))"
  by (simp add: predict_def pad_sequences_def Let_def split: option.splits)

lemma pad_row_first: "s \<noteq> [] \<Longrightarrow> length s \<le> 500 \<Longrightarrow> pad_row 500 v s ! 0 = s ! 0"
  by (cases s) (simp_all add: pad_row_def)

lemma sample_encode:
  "encode_review sample_SA (py_split ''Good movie!'') = [4, 7]"
  "encode_review sample_SA (py_split ''Movie night'') = [7, 0]"
  "encode_review sample_SA (py_split ''bad'') = [0]"
  by (simp_all add: encode_review_def py_split_def is_space_def text_to_word_sequence_def
      lower_def lower_char_def is_filter_def sample_SA_def dict_def sample_vocabulary_def)

lemma sample_model_rows:
  "sample_model (pad_row 500 0 [4, 7]) = Inr 0.75"
  "sample_model (pad_row 500 0 [7, 0]) = Inr 0.5"
  "sample_model (pad_row 500 0 [0]) = Inr 0.1"
  by (simp_all add: sample_model_def pad_row_first)

lemma sample_fields:
  "word_index sample_SA ''<PAD>'' = Some 0" "model sample_SA = Some sample_model"
  "positive_cap sample_SA = 0.6" "neutral_cap sample_SA = 0.4"
  by (simp_all add: sample_SA_def)

lemma sample_predict:
  "predict sample_SA ''Good movie!'' = Inr (0.75, ''Positive review'')"
  "predict sample_SA ''Movie night'' = Inr (0.5, ''Neutral review'')"
  "predict sample_SA ''bad'' = Inr (0.1, ''Negative review'')"
  by (simp_all add: predict_padded sample_fields sample_encode sample_model_rows which_sentiment_def)

lemma row_of_predict:
  assumes "\<exists>prob sentiment. predict self i = Inr (prob, sentiment)
             \<and> row = [S i, F prob, S sentiment]"
    and "predict self i = Inr (p, s)"
  shows "row = [S i, F p, S s]"
  using assms by auto

theorem predict_from_file_records_witness:
  "open_read sample_env ''reviews.txt'' = Inr sample_text
   \<and> (\<exists>rs. predict_from_file sample_SA sample_env ''reviews.txt'' = Inr rs
         \<and> length rs = 3
         \<and> rs ! 0 = [S ''Good movie!'', F 0.75, S ''Positive review'']
         \<and> rs ! 1 = [S ''Movie night'', F 0.5, S ''Neutral review'']
         \<and> rs ! 2 = [S ''bad'', F 0.1, S ''Negative review''])"
proof -
  let ?data = "[''Good movie!'', ''Movie night'', ''bad'']"
  have o: "open_read sample_env ''reviews.txt'' = Inr sample_text"
    by (simp add: sample_env_def no_files_def)
  have ext: "\<not> endswith ''reviews.txt'' ''.csv''" "endswith ''reviews.txt'' ''.txt''"
    by (simp_all add: endswith_def)
  have src: "(endswith ''reviews.txt'' ''.csv''
              \<and> (\<exists>reviews. read_csv sample_env ''reviews.txt'' = Inr reviews
                    \<and> reviews ''Reviews'' = Some ?data))
         \<or> (\<not> endswith ''reviews.txt'' ''.csv'' \<and> endswith ''reviews.txt'' ''.txt''
              \<and> (\<exists>content. open_read sample_env ''reviews.txt'' = Inr content
                    \<and> ?data = map remove_newlines (readlines content)))"
    by (intro disjI2 conjI exI [of _ sample_text]) (simp_all only: o ext sample_lines not_False_eq_True)
  have ok: "\<forall>i \<in> set ?data. \<exists>r. predict sample_SA i = Inr r"
    by (simp only: list.set ball_simps sample_predict sum.inject simp_thms)
  from predict_from_file_records [OF src ok] obtain rs where
    all: "predict_from_file sample_SA sample_env ''reviews.txt'' = Inr rs \<and> length rs = length ?data
      \<and> (\<forall>k < length ?data. \<exists>prob sentiment.
                 predict sample_SA (?data ! k) = Inr (prob, sentiment)
               \<and> rs ! k = [S (?data ! k), F prob, S sentiment])" ..
  from all have p: "predict_from_file sample_SA sample_env ''reviews.txt'' = Inr rs" by (rule conjunct1)
  from all have len: "length rs = 3" by simp
  from all have row: "\<forall>k < 3. \<exists>prob sentiment.
                 predict sample_SA (?data ! k) = Inr (prob, sentiment)
               \<and> rs ! k = [S (?data ! k), F prob, S sentiment]" by simp
  from row [rule_format, of 0] have "\<exists>prob sentiment. predict sample_SA ''Good movie!'' = Inr (prob, sentiment)
               \<and> rs ! 0 = [S ''Good movie!'', F prob, S sentiment]" by simp
  then have r0: "rs ! 0 = [S ''Good movie!'', F 0.75, S ''Positive review'']"
    by (rule row_of_predict) (rule sample_predict)
  from row [rule_format, of 1] have "\<exists>prob sentiment. predict sample_SA ''Movie night'' = Inr (prob, sentiment)
               \<and> rs ! 1 = [S ''Movie night'', F prob, S sentiment]" by simp
  then have r1: "rs ! 1 = [S ''Movie night'', F 0.5, S ''Neutral review'']"
    by (rule row_of_predict) (rule sample_predict)
  from row [rule_format, of 2] have "\<exists>prob sentiment. predict sample_SA ''bad'' = Inr (prob, sentiment)
               \<and> rs ! 2 = [S ''bad'', F prob, S sentiment]" by simp
  then have r2: "rs ! 2 = [S ''bad'', F 0.1, S ''Negative review'']"
    by (rule row_of_predict) (rule sample_predict)
  show ?thesis
    using o p len r0 r1 r2 by (intro conjI exI [of _ rs]) assumption+
qed

end
